theory Spec2Isabelle
  imports Main "HOL-Library.Sublist" "HOL-Library.Word"
begin

section \<open>Kisunyabot: the fetch with fallback, the parser and the handlers\<close>

text \<open>
  The bot answers a chat message with a fixed text or with a picture whose address it
  fetches from one of two HTTP endpoints.  The model below follows
  \<^verbatim>\<open>kisunyabot.py\<close> function by function.

  \<^item> Python \<^verbatim>\<open>str\<close> values are modelled by their UTF-8 bytes (\<^typ>\<open>string\<close>); the
    Russian texts of the source are therefore written as byte lists, with an English
    gloss beside each.  Equality, concatenation and the substring test are the same on
    code points and on their UTF-8 encoding.
  \<^item> An exception is a value of type \<open>exn\<close>; a function that may raise returns
    \<open>exn + 'a\<close>, with \<open>Inl\<close> for the raised exception.  Only subclasses of
    \<^verbatim>\<open>Exception\<close> are modelled, the ones \<^verbatim>\<open>except Exception\<close> catches.
  \<^item> The outside world is an \<open>env\<close>: what \<^verbatim>\<open>requests.get\<close>, \<^verbatim>\<open>bot.send_message\<close> and
    \<^verbatim>\<open>bot.send_photo\<close> answer, each as a function of the calls made so far.
  \<^item> Every call that leaves the process is appended to a trace (\<open>call list\<close>), whether
    it returns or raises, so that the order and the number of calls can be stated.
  \<^item> The logger only writes to standard output; its calls are left out.
\<close>

subsection \<open>Values decoded from JSON\<close>

text \<open>A Python float is kept as the 64 bits of its IEEE 754 representation; the program
  never looks inside one.\<close>

datatype jvalue =
    JNull
  | JBool bool
  | JInt int
  | JFloat "64 word"
  | JStr string
  | JList "jvalue list"
  | JDict "string \<rightharpoonup> jvalue"

text \<open>\<^verbatim>\<open>str(type(x))\<close>, as the f-strings of \<^verbatim>\<open>parse_answer\<close> print it.\<close>

fun type_name :: "jvalue \<Rightarrow> string" where
  "type_name JNull = ''NoneType''"
| "type_name (JBool b) = ''bool''"
| "type_name (JInt i) = ''int''"
| "type_name (JFloat f) = ''float''"
| "type_name (JStr s) = ''str''"
| "type_name (JList xs) = ''list''"
| "type_name (JDict d) = ''dict''"

definition str_type :: "jvalue \<Rightarrow> string" where
  "str_type x = [CHR 0x3C] @ ''class '' @ [CHR 0x27] @ type_name x @ [CHR 0x27, CHR 0x3E]"

text \<open>\<^verbatim>\<open>str(n)\<close> for an integer: decimal digits, a minus sign below zero.\<close>

definition digit_char :: "nat \<Rightarrow> char" where
  "digit_char d = ''0123456789'' ! d"

fun str_nat :: "nat \<Rightarrow> string" where
  "str_nat n = (if n < 10 then [digit_char n] else str_nat (n div 10) @ [digit_char (n mod 10)])"

declare str_nat.simps [simp del]

definition str_int :: "int \<Rightarrow> string" where
  "str_int i = (if i < 0 then ''-'' @ str_nat (nat (- i)) else str_nat (nat i))"

text \<open>\<^verbatim>\<open>f'{name}'\<close> for \<^verbatim>\<open>chat.first_name\<close>, which Telegram may leave out (\<^verbatim>\<open>None\<close>).\<close>

definition str_name :: "string option \<Rightarrow> string" where
  "str_name name = (case name of None \<Rightarrow> ''None'' | Some s \<Rightarrow> s)"

subsection \<open>Configuration\<close>

definition DEFAULT_ENDPOINT :: string where
  "DEFAULT_ENDPOINT = ''https://api.thecatapi.com/v1/images/search''"

definition BACKUP_ENDPOINT :: string where
  "BACKUP_ENDPOINT = ''https://api.thedogapi.com/v1/images/search''"

text \<open>The button label, "Give me a kitty!" in Russian.\<close>

definition BUTTON :: "string" where
  "BUTTON =
     [CHR 0xD0, CHR 0x9F, CHR 0xD0, CHR 0xBE, CHR 0xD0, CHR 0xB4, CHR 0xD0, CHR 0xB0, CHR 0xD0,
     CHR 0xB9] @ '' '' @ [CHR 0xD0, CHR 0xBA, CHR 0xD0, CHR 0xBE, CHR 0xD1, CHR 0x82, CHR 0xD0,
     CHR 0xB8, CHR 0xD0, CHR 0xBA, CHR 0xD0, CHR 0xB0] @ ''!''"

datatype reply_markup =
  ReplyKeyboardMarkup (keyboard: "string list list") (resize_keyboard: bool)

text \<open>\<^verbatim>\<open>ReplyKeyboardMarkup.from_button(BUTTON, resize_keyboard=True)\<close>\<close>

definition MARKUP :: reply_markup where
  "MARKUP = ReplyKeyboardMarkup [[BUTTON]] True"

subsection \<open>Exceptions, responses, the outside world\<close>

text \<open>
  \<open>APIAnswerStatusCodeError\<close> comes from the module \<^verbatim>\<open>exceptions\<close>.
  Modelled from the spec: the module is not part of the sources at hand; a status other
  than 200 is "deliberately raised as an error" that triggers the fallback, so the class is
  one that \<^verbatim>\<open>except Exception\<close> catches, built from its message.
  \<open>RequestException\<close> and \<open>TelegramError\<close> stand for what the two libraries raise.
\<close>

datatype exn =
    JSONDecodeError string
  | TypeError string
  | ValueError string
  | KeyError string
  | APIAnswerStatusCodeError string
  | RequestException string
  | TelegramError string

text \<open>
  A \<^verbatim>\<open>requests\<close> response: its status code and what its method \<^verbatim>\<open>json()\<close> does, return
  the decoded body or raise.
\<close>

record response =
  status_code :: int
  json :: "exn + jvalue"

text \<open>The inbound update: the chat, and the text of the message.  \<open>command\<close> is the bot
  command that the framework read off the head of the text, if the text starts with one.\<close>

record update =
  chat_id :: int
  first_name :: "string option"
  message_text :: string
  command :: "string option"

datatype call =
    RequestsGet string
  | BotSendMessage int string reply_markup
  | BotSendPhoto int jvalue

text \<open>What the network and the messaging gateway answer to a call, given the calls made
  before it.  \<open>None\<close> from the gateway is a normal return, \<open>Some e\<close> a raised \<open>e\<close>.\<close>

record env =
  http_get :: "call list \<Rightarrow> string \<Rightarrow> exn + response"
  tg_send_message :: "call list \<Rightarrow> int \<Rightarrow> string \<Rightarrow> reply_markup \<Rightarrow> exn option"
  tg_send_photo :: "call list \<Rightarrow> int \<Rightarrow> jvalue \<Rightarrow> exn option"

definition requests_get :: "env \<Rightarrow> string \<Rightarrow> call list \<Rightarrow> (exn + response) \<times> call list" where
  "requests_get e url tr = (http_get e tr url, tr @ [RequestsGet url])"

definition bot_send_message ::
  "env \<Rightarrow> int \<Rightarrow> string \<Rightarrow> reply_markup \<Rightarrow> call list \<Rightarrow> (exn + unit) \<times> call list" where
  "bot_send_message e chat txt markup tr =
     (case tg_send_message e tr chat txt markup of
        None \<Rightarrow> (Inr (), tr @ [BotSendMessage chat txt markup])
      | Some error \<Rightarrow> (Inl error, tr @ [BotSendMessage chat txt markup]))"

definition bot_send_photo ::
  "env \<Rightarrow> int \<Rightarrow> jvalue \<Rightarrow> call list \<Rightarrow> (exn + unit) \<times> call list" where
  "bot_send_photo e chat img tr =
     (case tg_send_photo e tr chat img of
        None \<Rightarrow> (Inr (), tr @ [BotSendPhoto chat img])
      | Some error \<Rightarrow> (Inl error, tr @ [BotSendPhoto chat img]))"

subsection \<open>The texts of the program\<close>

text \<open>Python's message for calling an object that is not callable.\<close>

definition text_not_callable :: "string" where
  "text_not_callable =
     [CHR 0x27] @ ''JSONDecodeError'' @ [CHR 0x27] @ '' object is not callable''"

text \<open>"Wrong type of the answer decoded from json. A list is required, the type is ...".\<close>

definition text_not_list :: "jvalue \<Rightarrow> string" where
  "text_not_list response =
     [CHR 0xD0, CHR 0x9D, CHR 0xD0, CHR 0xB5, CHR 0xD0, CHR 0xB2, CHR 0xD0, CHR 0xB5, CHR 0xD1,
     CHR 0x80, CHR 0xD0, CHR 0xBD, CHR 0xD1, CHR 0x8B, CHR 0xD0, CHR 0xB9] @ '' '' @ [CHR 0xD1,
     CHR 0x82, CHR 0xD0, CHR 0xB8, CHR 0xD0, CHR 0xBF] @ '' '' @ [CHR 0xD0, CHR 0xB4, CHR 0xD0,
     CHR 0xB0, CHR 0xD0, CHR 0xBD, CHR 0xD0, CHR 0xBD, CHR 0xD1, CHR 0x8B, CHR 0xD1, CHR 0x85] @
     '' '' @ [CHR 0xD0, CHR 0xB4, CHR 0xD0, CHR 0xB5, CHR 0xD0, CHR 0xBA, CHR 0xD0, CHR 0xBE,
     CHR 0xD0, CHR 0xB4, CHR 0xD0, CHR 0xB8, CHR 0xD1, CHR 0x80, CHR 0xD0, CHR 0xBE, CHR 0xD0,
     CHR 0xB2, CHR 0xD0, CHR 0xB0, CHR 0xD0, CHR 0xBD, CHR 0xD0, CHR 0xBD, CHR 0xD0, CHR 0xBE,
     CHR 0xD0, CHR 0xB3, CHR 0xD0, CHR 0xBE] @ '' '' @ [CHR 0xD0, CHR 0xB8, CHR 0xD0,
     CHR 0xB7] @ '' json '' @ [CHR 0xD0, CHR 0xBE, CHR 0xD1, CHR 0x82, CHR 0xD0, CHR 0xB2,
     CHR 0xD0, CHR 0xB5, CHR 0xD1, CHR 0x82, CHR 0xD0, CHR 0xB0] @ ''. '' @ [CHR 0xD0, CHR 0xA2,
     CHR 0xD1, CHR 0x80, CHR 0xD0, CHR 0xB5, CHR 0xD0, CHR 0xB1, CHR 0xD1, CHR 0x83, CHR 0xD0,
     CHR 0xB5, CHR 0xD1, CHR 0x82, CHR 0xD1, CHR 0x81, CHR 0xD1, CHR 0x8F] @ '' '' @ [CHR 0xD1,
     CHR 0x81, CHR 0xD0, CHR 0xBF, CHR 0xD0, CHR 0xB8, CHR 0xD1, CHR 0x81, CHR 0xD0, CHR 0xBE,
     CHR 0xD0, CHR 0xBA] @ '', '' @ [CHR 0xD1, CHR 0x82, CHR 0xD0, CHR 0xB5, CHR 0xD0, CHR 0xBA,
     CHR 0xD1, CHR 0x83, CHR 0xD1, CHR 0x89, CHR 0xD0, CHR 0xB8, CHR 0xD0, CHR 0xB9] @ '' '' @
     [CHR 0xD1, CHR 0x82, CHR 0xD0, CHR 0xB8, CHR 0xD0, CHR 0xBF] @ '' - '' @
     str_type response @ ''.''"

text \<open>"The answer decoded from json is wrongly empty."\<close>

definition text_empty :: "string" where
  "text_empty =
     [CHR 0xD0, CHR 0x94, CHR 0xD0, CHR 0xB5, CHR 0xD0, CHR 0xBA, CHR 0xD0, CHR 0xBE, CHR 0xD0,
     CHR 0xB4, CHR 0xD0, CHR 0xB8, CHR 0xD1, CHR 0x80, CHR 0xD0, CHR 0xBE, CHR 0xD0, CHR 0xB2,
     CHR 0xD0, CHR 0xB0, CHR 0xD0, CHR 0xBD, CHR 0xD0, CHR 0xBD, CHR 0xD1, CHR 0x8B, CHR 0xD0,
     CHR 0xB9] @ '' '' @ [CHR 0xD0, CHR 0xB8, CHR 0xD0, CHR 0xB7] @ '' json '' @ [CHR 0xD0,
     CHR 0xBE, CHR 0xD1, CHR 0x82, CHR 0xD0, CHR 0xB2, CHR 0xD0, CHR 0xB5, CHR 0xD1, CHR 0x82] @
     '' '' @ [CHR 0xD0, CHR 0xBE, CHR 0xD1, CHR 0x88, CHR 0xD0, CHR 0xB8, CHR 0xD0, CHR 0xB1,
     CHR 0xD0, CHR 0xBE, CHR 0xD1, CHR 0x87, CHR 0xD0, CHR 0xBD, CHR 0xD0, CHR 0xBE] @ '' '' @
     [CHR 0xD0, CHR 0xBF, CHR 0xD1, CHR 0x83, CHR 0xD1, CHR 0x81, CHR 0xD1, CHR 0x82] @ ''.''"

text \<open>"Wrong type of the element of the answer. A dict is required, the type is ...".\<close>

definition text_not_dict :: "jvalue \<Rightarrow> string" where
  "text_not_dict response_information =
     [CHR 0xD0, CHR 0x9D, CHR 0xD0, CHR 0xB5, CHR 0xD0, CHR 0xB2, CHR 0xD0, CHR 0xB5, CHR 0xD1,
     CHR 0x80, CHR 0xD0, CHR 0xBD, CHR 0xD1, CHR 0x8B, CHR 0xD0, CHR 0xB9] @ '' '' @ [CHR 0xD1,
     CHR 0x82, CHR 0xD0, CHR 0xB8, CHR 0xD0, CHR 0xBF] @ '' '' @ [CHR 0xD0, CHR 0xB4, CHR 0xD0,
     CHR 0xB0, CHR 0xD0, CHR 0xBD, CHR 0xD0, CHR 0xBD, CHR 0xD1, CHR 0x8B, CHR 0xD1, CHR 0x85] @
     '' '' @ [CHR 0xD1, CHR 0x8D, CHR 0xD0, CHR 0xBB, CHR 0xD0, CHR 0xB5, CHR 0xD0, CHR 0xBC,
     CHR 0xD0, CHR 0xB5, CHR 0xD0, CHR 0xBD, CHR 0xD1, CHR 0x82, CHR 0xD0, CHR 0xB0] @ '' '' @
     [CHR 0xD0, CHR 0xBE, CHR 0xD1, CHR 0x82, CHR 0xD0, CHR 0xB2, CHR 0xD0, CHR 0xB5, CHR 0xD1,
     CHR 0x82, CHR 0xD0, CHR 0xB0] @ ''. '' @ [CHR 0xD0, CHR 0xA2, CHR 0xD1, CHR 0x80, CHR 0xD0,
     CHR 0xB5, CHR 0xD0, CHR 0xB1, CHR 0xD1, CHR 0x83, CHR 0xD0, CHR 0xB5, CHR 0xD1, CHR 0x82,
     CHR 0xD1, CHR 0x81, CHR 0xD1, CHR 0x8F] @ '' '' @ [CHR 0xD1, CHR 0x81, CHR 0xD0, CHR 0xBB,
     CHR 0xD0, CHR 0xBE, CHR 0xD0, CHR 0xB2, CHR 0xD0, CHR 0xB0, CHR 0xD1, CHR 0x80, CHR 0xD1,
     CHR 0x8C] @ '', '' @ [CHR 0xD1, CHR 0x82, CHR 0xD0, CHR 0xB5, CHR 0xD0, CHR 0xBA, CHR 0xD1,
     CHR 0x83, CHR 0xD1, CHR 0x89, CHR 0xD0, CHR 0xB8, CHR 0xD0, CHR 0xB9] @ '' '' @ [CHR 0xD1,
     CHR 0x82, CHR 0xD0, CHR 0xB8, CHR 0xD0, CHR 0xBF] @ '' - '' @
     str_type response_information @ ''.''"

text \<open>"The answer has no data about "url"."\<close>

definition text_no_url :: "string" where
  "text_no_url =
     [CHR 0xD0, CHR 0x9E, CHR 0xD1, CHR 0x82, CHR 0xD0, CHR 0xB2, CHR 0xD0, CHR 0xB5, CHR 0xD1,
     CHR 0x82] @ '' '' @ [CHR 0xD0, CHR 0xBD, CHR 0xD0, CHR 0xB5] @ '' '' @ [CHR 0xD1, CHR 0x81,
     CHR 0xD0, CHR 0xBE, CHR 0xD0, CHR 0xB4, CHR 0xD0, CHR 0xB5, CHR 0xD1, CHR 0x80, CHR 0xD0,
     CHR 0xB6, CHR 0xD0, CHR 0xB8, CHR 0xD1, CHR 0x82] @ '' '' @ [CHR 0xD0, CHR 0xB4, CHR 0xD0,
     CHR 0xB0, CHR 0xD0, CHR 0xBD, CHR 0xD0, CHR 0xBD, CHR 0xD1, CHR 0x8B, CHR 0xD0, CHR 0xB5] @
     '' '' @ [CHR 0xD0, CHR 0xBF, CHR 0xD1, CHR 0x80, CHR 0xD0, CHR 0xBE] @ '' '' @ [CHR 0x22] @
     ''url'' @ [CHR 0x22] @ ''.''"

text \<open>"Endpoint ... is unavailable. Response code of the API: ... ."\<close>

definition text_unavailable :: "string \<Rightarrow> int \<Rightarrow> string" where
  "text_unavailable endpoint code =
     [CHR 0xD0, CHR 0xAD, CHR 0xD0, CHR 0xBD, CHR 0xD0, CHR 0xB4, CHR 0xD0, CHR 0xBF, CHR 0xD0,
     CHR 0xBE, CHR 0xD0, CHR 0xB8, CHR 0xD0, CHR 0xBD, CHR 0xD1, CHR 0x82] @ '' '' @ endpoint @
     '' '' @ [CHR 0xD0, CHR 0xBD, CHR 0xD0, CHR 0xB5, CHR 0xD0, CHR 0xB4, CHR 0xD0, CHR 0xBE,
     CHR 0xD1, CHR 0x81, CHR 0xD1, CHR 0x82, CHR 0xD1, CHR 0x83, CHR 0xD0, CHR 0xBF, CHR 0xD0,
     CHR 0xB5, CHR 0xD0, CHR 0xBD] @ ''. '' @ [CHR 0xD0, CHR 0x9A, CHR 0xD0, CHR 0xBE, CHR 0xD0,
     CHR 0xB4] @ '' '' @ [CHR 0xD0, CHR 0xBE, CHR 0xD1, CHR 0x82, CHR 0xD0, CHR 0xB2, CHR 0xD0,
     CHR 0xB5, CHR 0xD1, CHR 0x82, CHR 0xD0, CHR 0xB0] @ '' API: '' @ str_int code @ ''.''"

text \<open>"Unfortunately the service is unavailable at the moment. Try again later."\<close>

definition text_apology :: "string" where
  "text_apology =
     [CHR 0xD0, CHR 0x9A] @ '' '' @ [CHR 0xD1, CHR 0x81, CHR 0xD0, CHR 0xBE, CHR 0xD0, CHR 0xB6,
     CHR 0xD0, CHR 0xB0, CHR 0xD0, CHR 0xBB, CHR 0xD0, CHR 0xB5, CHR 0xD0, CHR 0xBD, CHR 0xD0,
     CHR 0xB8, CHR 0xD1, CHR 0x8E] @ '', '' @ [CHR 0xD1, CHR 0x81, CHR 0xD0, CHR 0xB5, CHR 0xD1,
     CHR 0x80, CHR 0xD0, CHR 0xB2, CHR 0xD0, CHR 0xB8, CHR 0xD1, CHR 0x81] @ '' '' @ [CHR 0xD0,
     CHR 0xBD, CHR 0xD0, CHR 0xB0] @ '' '' @ [CHR 0xD0, CHR 0xB4, CHR 0xD0, CHR 0xB0, CHR 0xD0,
     CHR 0xBD, CHR 0xD0, CHR 0xBD, CHR 0xD1, CHR 0x8B, CHR 0xD0, CHR 0xB9] @ '' '' @ [CHR 0xD0,
     CHR 0xBC, CHR 0xD0, CHR 0xBE, CHR 0xD0, CHR 0xBC, CHR 0xD0, CHR 0xB5, CHR 0xD0, CHR 0xBD,
     CHR 0xD1, CHR 0x82] @ '' '' @ [CHR 0xD0, CHR 0xBD, CHR 0xD0, CHR 0xB5, CHR 0xD0, CHR 0xB4,
     CHR 0xD0, CHR 0xBE, CHR 0xD1, CHR 0x81, CHR 0xD1, CHR 0x82, CHR 0xD1, CHR 0x83, CHR 0xD0,
     CHR 0xBF, CHR 0xD0, CHR 0xB5, CHR 0xD0, CHR 0xBD] @ ''. '' @ [CHR 0xD0, CHR 0x9F, CHR 0xD0,
     CHR 0xBE, CHR 0xD0, CHR 0xBF, CHR 0xD1, CHR 0x80, CHR 0xD0, CHR 0xBE, CHR 0xD0, CHR 0xB1,
     CHR 0xD1, CHR 0x83, CHR 0xD0, CHR 0xB9, CHR 0xD1, CHR 0x82, CHR 0xD0, CHR 0xB5] @ '' '' @
     [CHR 0xD0, CHR 0xBE, CHR 0xD0, CHR 0xB1, CHR 0xD1, CHR 0x80, CHR 0xD0, CHR 0xB0, CHR 0xD1,
     CHR 0x82, CHR 0xD0, CHR 0xB8, CHR 0xD1, CHR 0x82, CHR 0xD1, CHR 0x8C, CHR 0xD1, CHR 0x81,
     CHR 0xD1, CHR 0x8F] @ '' '' @ [CHR 0xD0, CHR 0xBF, CHR 0xD0, CHR 0xBE, CHR 0xD0, CHR 0xB7,
     CHR 0xD0, CHR 0xB4, CHR 0xD0, CHR 0xBD, CHR 0xD0, CHR 0xB5, CHR 0xD0, CHR 0xB5] @ ''.''"

text \<open>"Unfortunately I cannot chat. But I am a master at finding photos of kitties."\<close>

definition text_cannot_chat :: "string" where
  "text_cannot_chat =
     [CHR 0xD0, CHR 0x9A] @ '' '' @ [CHR 0xD1, CHR 0x81, CHR 0xD0, CHR 0xBE, CHR 0xD0, CHR 0xB6,
     CHR 0xD0, CHR 0xB0, CHR 0xD0, CHR 0xBB, CHR 0xD0, CHR 0xB5, CHR 0xD0, CHR 0xBD, CHR 0xD0,
     CHR 0xB8, CHR 0xD1, CHR 0x8E] @ '', '' @ [CHR 0xD1, CHR 0x8F] @ '' '' @ [CHR 0xD0,
     CHR 0xBD, CHR 0xD0, CHR 0xB5] @ '' '' @ [CHR 0xD1, CHR 0x83, CHR 0xD0, CHR 0xBC, CHR 0xD0,
     CHR 0xB5, CHR 0xD1, CHR 0x8E] @ '' '' @ [CHR 0xD0, CHR 0xBE, CHR 0xD0, CHR 0xB1, CHR 0xD1,
     CHR 0x89, CHR 0xD0, CHR 0xB0, CHR 0xD1, CHR 0x82, CHR 0xD1, CHR 0x8C, CHR 0xD1, CHR 0x81,
     CHR 0xD1, CHR 0x8F] @ ''. '' @ [CHR 0xD0, CHR 0x9D, CHR 0xD0, CHR 0xBE] @ '' '' @
     [CHR 0xD0, CHR 0xB7, CHR 0xD0, CHR 0xB0, CHR 0xD1, CHR 0x82, CHR 0xD0, CHR 0xBE] @ '' '' @
     [CHR 0xD0, CHR 0xBC, CHR 0xD0, CHR 0xB0, CHR 0xD1, CHR 0x81, CHR 0xD1, CHR 0x82, CHR 0xD0,
     CHR 0xB5, CHR 0xD1, CHR 0x80, CHR 0xD1, CHR 0x81, CHR 0xD0, CHR 0xBA, CHR 0xD0, CHR 0xB8] @
     '' '' @ [CHR 0xD0, CHR 0xB8, CHR 0xD1, CHR 0x89, CHR 0xD1, CHR 0x83] @ '' '' @ [CHR 0xD1,
     CHR 0x84, CHR 0xD0, CHR 0xBE, CHR 0xD1, CHR 0x82, CHR 0xD0, CHR 0xBE, CHR 0xD0, CHR 0xB3,
     CHR 0xD1, CHR 0x80, CHR 0xD0, CHR 0xB0, CHR 0xD1, CHR 0x84, CHR 0xD0, CHR 0xB8, CHR 0xD0,
     CHR 0xB8] @ '' '' @ [CHR 0xD0, CHR 0xBA, CHR 0xD0, CHR 0xBE, CHR 0xD1, CHR 0x82, CHR 0xD0,
     CHR 0xB8, CHR 0xD0, CHR 0xBA, CHR 0xD0, CHR 0xBE, CHR 0xD0, CHR 0xB2] @ ''.''"

text \<open>"Hello, ... . Look what a kitty I have found for you!"\<close>

definition text_greeting :: "string option \<Rightarrow> string" where
  "text_greeting name =
     [CHR 0xD0, CHR 0x9F, CHR 0xD1, CHR 0x80, CHR 0xD0, CHR 0xB8, CHR 0xD0, CHR 0xB2, CHR 0xD0,
     CHR 0xB5, CHR 0xD1, CHR 0x82] @ '', '' @ str_name name @ ''. '' @ [CHR 0xD0, CHR 0x9F,
     CHR 0xD0, CHR 0xBE, CHR 0xD1, CHR 0x81, CHR 0xD0, CHR 0xBC, CHR 0xD0, CHR 0xBE, CHR 0xD1,
     CHR 0x82, CHR 0xD1, CHR 0x80, CHR 0xD0, CHR 0xB8] @ '', '' @ [CHR 0xD0, CHR 0xBA, CHR 0xD0,
     CHR 0xB0, CHR 0xD0, CHR 0xBA, CHR 0xD0, CHR 0xBE, CHR 0xD0, CHR 0xB3, CHR 0xD0, CHR 0xBE] @
     '' '' @ [CHR 0xD0, CHR 0xBA, CHR 0xD0, CHR 0xBE, CHR 0xD1, CHR 0x82, CHR 0xD0, CHR 0xB8,
     CHR 0xD0, CHR 0xBA, CHR 0xD0, CHR 0xB0] @ '' '' @ [CHR 0xD1, CHR 0x8F] @ '' '' @ [CHR 0xD1,
     CHR 0x82, CHR 0xD0, CHR 0xB5, CHR 0xD0, CHR 0xB1, CHR 0xD0, CHR 0xB5] @ '' '' @ [CHR 0xD0,
     CHR 0xBD, CHR 0xD0, CHR 0xB0, CHR 0xD1, CHR 0x88, CHR 0xD1, CHR 0x91, CHR 0xD0, CHR 0xBB] @
     ''!''"

subsection \<open>\<^verbatim>\<open>send_message\<close>\<close>

text \<open>Whatever the gateway raises is caught and logged; the function returns normally.\<close>

definition send_message :: "env \<Rightarrow> int \<Rightarrow> string \<Rightarrow> call list \<Rightarrow> (exn + unit) \<times> call list" where
  "send_message e chat txt tr =
     (case bot_send_message e chat txt MARKUP tr of
        (Inr u, tr') \<Rightarrow> (Inr (), tr')
      | (Inl error, tr') \<Rightarrow> (Inr (), tr'))"

subsection \<open>\<^verbatim>\<open>parse_answer\<close>\<close>

text \<open>
  In the handler of \<^verbatim>\<open>JSONDecodeError\<close> the source writes \<^verbatim>\<open>raise error(text)\<close>, where
  \<^verbatim>\<open>error\<close> is the caught exception object: the call of that object raises
  \<^verbatim>\<open>TypeError\<close>, and this is the exception that leaves the function.  Another exception
  of \<^verbatim>\<open>json()\<close> is not caught.
\<close>

definition parse_answer :: "response \<Rightarrow> exn + jvalue" where
  "parse_answer response =
     (case json response of
        Inl error \<Rightarrow>
          (case error of
             JSONDecodeError m \<Rightarrow> Inl (TypeError text_not_callable)
           | _ \<Rightarrow> Inl error)
      | Inr decoded \<Rightarrow>
          (case decoded of
             JList xs \<Rightarrow>
               (case xs of
                  [] \<Rightarrow> Inl (ValueError text_empty)
                | response_information # rest \<Rightarrow>
                    (case response_information of
                       JDict d \<Rightarrow>
                         (case d ''url'' of
                            None \<Rightarrow> Inl (KeyError text_no_url)
                          | Some url \<Rightarrow> Inr url)
                     | _ \<Rightarrow> Inl (TypeError (text_not_dict response_information))))
           | _ \<Rightarrow> Inl (TypeError (text_not_list decoded))))"

subsection \<open>\<^verbatim>\<open>get_response\<close>\<close>

text \<open>
  The \<^verbatim>\<open>try\<close> block asks the primary endpoint and raises on a status other than 200;
  \<^verbatim>\<open>except Exception\<close> catches that and whatever \<^verbatim>\<open>requests.get\<close> raised, and asks the
  backup endpoint, outside any \<^verbatim>\<open>try\<close>.
\<close>

definition get_response :: "env \<Rightarrow> call list \<Rightarrow> (exn + response) \<times> call list" where
  "get_response e tr =
     (case (case requests_get e DEFAULT_ENDPOINT tr of
              (Inl error, tr1) \<Rightarrow> (Inl error, tr1)
            | (Inr response, tr1) \<Rightarrow>
                (if status_code response \<noteq> 200
                 then (Inl (APIAnswerStatusCodeError
                         (text_unavailable DEFAULT_ENDPOINT (status_code response))), tr1)
                 else (Inr response, tr1))) of
        (Inr response, tr1) \<Rightarrow> (Inr response, tr1)
      | (Inl error, tr1) \<Rightarrow>
          (case requests_get e BACKUP_ENDPOINT tr1 of
             (Inl error2, tr2) \<Rightarrow> (Inl error2, tr2)
           | (Inr response, tr2) \<Rightarrow>
               (if status_code response \<noteq> 200
                then (Inl (APIAnswerStatusCodeError
                        (text_unavailable BACKUP_ENDPOINT (status_code response))), tr2)
                else (Inr response, tr2))))"

subsection \<open>The handlers\<close>

definition new_image :: "env \<Rightarrow> update \<Rightarrow> call list \<Rightarrow> (exn + unit) \<times> call list" where
  "new_image e upd tr =
     (let chat = chat_id upd in
      case (case get_response e tr of
              (Inl error, tr1) \<Rightarrow> (Inl error, tr1)
            | (Inr response, tr1) \<Rightarrow>
                (case parse_answer response of
                   Inl error \<Rightarrow> (Inl error, tr1)
                 | Inr img \<Rightarrow> bot_send_photo e chat img tr1)) of
        (Inr u, tr2) \<Rightarrow> (Inr (), tr2)
      | (Inl error, tr2) \<Rightarrow> send_message e chat text_apology tr2)"

definition reply_to_message :: "env \<Rightarrow> update \<Rightarrow> call list \<Rightarrow> (exn + unit) \<times> call list" where
  "reply_to_message e upd tr =
     (let chat = chat_id upd in send_message e chat text_cannot_chat tr)"

definition wake_up :: "env \<Rightarrow> update \<Rightarrow> call list \<Rightarrow> (exn + unit) \<times> call list" where
  "wake_up e upd tr =
     (let chat = chat_id upd;
          name = first_name upd
      in case send_message e chat (text_greeting name) tr of
        (Inl error0, tr0) \<Rightarrow> (Inl error0, tr0)
      | (Inr u0, tr0) \<Rightarrow>
          (case (case get_response e tr0 of
                   (Inl error, tr1) \<Rightarrow> (Inl error, tr1)
                 | (Inr response, tr1) \<Rightarrow>
                     (case parse_answer response of
                        Inl error \<Rightarrow> (Inl error, tr1)
                      | Inr img \<Rightarrow> bot_send_photo e chat img tr1)) of
             (Inr u, tr2) \<Rightarrow> (Inr (), tr2)
           | (Inl error, tr2) \<Rightarrow> send_message e chat text_apology tr2))"

subsection \<open>The handlers registered in \<^verbatim>\<open>main\<close>\<close>

text \<open>
  \<^verbatim>\<open>main\<close> registers three handlers in one group; for each update the framework
  (python-telegram-bot in the versions that have \<^verbatim>\<open>telegram.ext.Filters\<close>) runs the first
  one whose check accepts it.

  \<^item> \<^verbatim>\<open>CommandHandler('start', wake_up)\<close> accepts a message that starts with the
    command \<^verbatim>\<open>start\<close>.
  \<^item> \<^verbatim>\<open>Filters.text(BUTTON)\<close>: called with an argument, the filter keeps the argument as
    its \<^verbatim>\<open>strings\<close> and accepts a message when its text is not empty and
    \<^verbatim>\<open>message.text in strings\<close>.  The source passes the \<^verbatim>\<open>str\<close> \<^verbatim>\<open>BUTTON\<close> itself, not a
    list holding it, and \<^verbatim>\<open>in\<close> between two \<^verbatim>\<open>str\<close> values is Python's substring test.
  \<^item> \<^verbatim>\<open>Filters.text\<close> accepts every message that has a text.
\<close>

definition command_start :: "update \<Rightarrow> bool" where
  "command_start upd = (command upd = Some ''start'')"

definition filters_text_in :: "string \<Rightarrow> update \<Rightarrow> bool" where
  "filters_text_in strings upd = (message_text upd \<noteq> [] \<and> sublist (message_text upd) strings)"

definition filters_text :: "update \<Rightarrow> bool" where
  "filters_text upd = (message_text upd \<noteq> [])"

definition dispatch :: "env \<Rightarrow> update \<Rightarrow> call list \<Rightarrow> (exn + unit) \<times> call list" where
  "dispatch e upd tr =
     (if command_start upd then wake_up e upd tr
      else if filters_text_in BUTTON upd then new_image e upd tr
      else if filters_text upd then reply_to_message e upd tr
      else (Inr (), tr))"

text \<open>The calls of a trace that went to the messaging gateway.\<close>

fun outbound :: "call list \<Rightarrow> call list" where
  "outbound [] = []"
| "outbound (RequestsGet url # cs) = outbound cs"
| "outbound (c # cs) = c # outbound cs"

subsection \<open>Sample inputs\<close>

text \<open>A payload as both endpoints document it, with a second element and a second field.\<close>

definition resp_cat :: response where
  "resp_cat = \<lparr>status_code = 200,
     json = Inr (JList [JDict [''id'' \<mapsto> JStr ''abc'', ''url'' \<mapsto> JStr ''http://x/cat.png''],
                        JInt 5])\<rparr>"

definition resp_not_json :: response where
  "resp_not_json = \<lparr>status_code = 200, json = Inl (JSONDecodeError ''Expecting value'')\<rparr>"

definition resp_500 :: response where
  "resp_500 = \<lparr>status_code = 500, json = Inl (JSONDecodeError ''Expecting value'')\<rparr>"

definition upd_start :: update where
  "upd_start = \<lparr>chat_id = 7, first_name = Some ''Ann'', message_text = ''/start'',
     command = Some ''start''\<rparr>"

definition upd_button :: update where
  "upd_button = \<lparr>chat_id = 7, first_name = Some ''Ann'', message_text = BUTTON, command = None\<rparr>"

definition upd_hello :: update where
  "upd_hello = \<lparr>chat_id = 7, first_name = Some ''Ann'', message_text = ''hello'', command = None\<rparr>"

text \<open>A message whose text is the last character of the button label.\<close>

definition upd_bang :: update where
  "upd_bang = \<lparr>chat_id = 7, first_name = Some ''Ann'', message_text = ''!'', command = None\<rparr>"

text \<open>Worlds: every endpoint answers with \<open>r\<close>; the primary answers with \<open>r1\<close> and the
  backup with \<open>r2\<close>; the backup cannot be reached; the gateway refuses every photo.\<close>

definition env_both :: "response \<Rightarrow> response \<Rightarrow> env" where
  "env_both r1 r2 =
     \<lparr>http_get = (\<lambda>tr url. if url = DEFAULT_ENDPOINT then Inr r1 else Inr r2),
      tg_send_message = (\<lambda>tr chat txt markup. None),
      tg_send_photo = (\<lambda>tr chat img. None)\<rparr>"

definition env_backup_down :: "response \<Rightarrow> env" where
  "env_backup_down r1 =
     \<lparr>http_get = (\<lambda>tr url. if url = DEFAULT_ENDPOINT then Inr r1
                              else Inl (RequestException ''connection refused'')),
      tg_send_message = (\<lambda>tr chat txt markup. None),
      tg_send_photo = (\<lambda>tr chat img. None)\<rparr>"

definition env_photo_refused :: "response \<Rightarrow> env" where
  "env_photo_refused r1 =
     \<lparr>http_get = (\<lambda>tr url. if url = DEFAULT_ENDPOINT then Inr r1 else Inr r1),
      tg_send_message = (\<lambda>tr chat txt markup. None),
      tg_send_photo = (\<lambda>tr chat img. Some (TelegramError ''Bad Request''))\<rparr>"

section \<open>Properties\<close>

subsection \<open>Auxiliary facts\<close>

lemma endpoints_distinct: "DEFAULT_ENDPOINT \<noteq> BACKUP_ENDPOINT"
  by (simp add: DEFAULT_ENDPOINT_def BACKUP_ENDPOINT_def)

lemma outbound_append: "outbound (xs @ ys) = outbound xs @ outbound ys"
  by (induction xs rule: outbound.induct) simp_all

lemma send_message_eq:
  "send_message e chat txt tr = (Inr (), tr @ [BotSendMessage chat txt MARKUP])"
  by (simp add: send_message_def bot_send_message_def split: option.splits)

text \<open>\<^verbatim>\<open>wake_up\<close> is the greeting followed by the body of \<^verbatim>\<open>new_image\<close>.\<close>

lemma wake_up_new_image:
  "wake_up e upd tr =
     new_image e upd (tr @ [BotSendMessage (chat_id upd) (text_greeting (first_name upd)) MARKUP])"
  by (simp add: wake_up_def new_image_def send_message_eq Let_def)

lemma get_response_primary_ok:
  "http_get e tr DEFAULT_ENDPOINT = Inr r \<Longrightarrow> status_code r = 200 \<Longrightarrow>
   get_response e tr = (Inr r, tr @ [RequestsGet DEFAULT_ENDPOINT])"
  by (simp add: get_response_def requests_get_def)

text \<open>The primary attempt failed: \<^verbatim>\<open>requests.get\<close> raised, or the status is not 200.\<close>

lemma get_response_primary_failed:
  "(case http_get e tr DEFAULT_ENDPOINT of Inl error \<Rightarrow> True | Inr r \<Rightarrow> status_code r \<noteq> 200) \<Longrightarrow>
   get_response e tr =
     (case http_get e (tr @ [RequestsGet DEFAULT_ENDPOINT]) BACKUP_ENDPOINT of
        Inl error2 \<Rightarrow> Inl error2
      | Inr r2 \<Rightarrow>
          if status_code r2 \<noteq> 200
          then Inl (APIAnswerStatusCodeError (text_unavailable BACKUP_ENDPOINT (status_code r2)))
          else Inr r2,
      tr @ [RequestsGet DEFAULT_ENDPOINT, RequestsGet BACKUP_ENDPOINT])"
  by (simp add: get_response_def requests_get_def split: sum.splits)

lemma get_response_outbound: "outbound (snd (get_response e tr)) = outbound tr"
  by (simp add: get_response_def requests_get_def outbound_append split: sum.splits)

text \<open>The four checks of \<^verbatim>\<open>parse_answer\<close> on a decoded body, each with its own exception.\<close>

lemma parse_answer_not_list:
  "json r = Inr v \<Longrightarrow> \<forall>xs. v \<noteq> JList xs \<Longrightarrow> parse_answer r = Inl (TypeError (text_not_list v))"
  by (cases v) (simp_all add: parse_answer_def)

lemma parse_answer_empty:
  "json r = Inr (JList []) \<Longrightarrow> parse_answer r = Inl (ValueError text_empty)"
  by (simp add: parse_answer_def)

lemma parse_answer_not_dict:
  "json r = Inr (JList (x # rest)) \<Longrightarrow> \<forall>d. x \<noteq> JDict d \<Longrightarrow>
   parse_answer r = Inl (TypeError (text_not_dict x))"
  by (cases x) (simp_all add: parse_answer_def)

lemma parse_answer_no_url:
  "json r = Inr (JList (JDict d # rest)) \<Longrightarrow> d ''url'' = None \<Longrightarrow>
   parse_answer r = Inl (KeyError text_no_url)"
  by (simp add: parse_answer_def)

subsection \<open>The parser\<close>

text \<open>
  C1.  When the body decodes to a non-empty list whose first element is an object with
  the key \<open>url\<close>, \<^verbatim>\<open>parse_answer\<close> returns the value stored under that key.  The result
  is the same for every other tail of the list and every other object that stores the
  same value under \<open>url\<close>: later elements and other fields have no effect.
\<close>

theorem parse_answer_first_url:
  assumes "json r = Inr (JList (JDict d # rest))" and "d ''url'' = Some v"
  shows "parse_answer r = Inr v \<and>
    (\<forall>r' d' rest'. json r' = Inr (JList (JDict d' # rest')) \<and> d' ''url'' = Some v \<longrightarrow>
       parse_answer r' = parse_answer r)"
  using assms by (simp add: parse_answer_def)

theorem parse_answer_first_url_witness:
  "parse_answer resp_cat = Inr (JStr ''http://x/cat.png'') \<and>
   parse_answer \<lparr>status_code = 200,
      json = Inr (JList [JDict [''url'' \<mapsto> JStr ''http://x/cat.png'']])\<rparr> = parse_answer resp_cat"
proof -
  have j: "json resp_cat = Inr (JList (JDict [''id'' \<mapsto> JStr ''abc'', ''url'' \<mapsto> JStr ''http://x/cat.png'']
             # [JInt 5]))"
    by (simp add: resp_cat_def)
  have u: "[''id'' \<mapsto> JStr ''abc'', ''url'' \<mapsto> JStr ''http://x/cat.png''] ''url''
             = Some (JStr ''http://x/cat.png'')"
    by simp
  from parse_answer_first_url [OF j u] show ?thesis
    by simp
qed

text \<open>
  C2.  The body that is not JSON: \<^verbatim>\<open>json()\<close> raises \<^verbatim>\<open>JSONDecodeError\<close>, the handler
  calls the caught exception object, and \<^verbatim>\<open>parse_answer\<close> leaves with the \<^verbatim>\<open>TypeError\<close>
  of that call, the class it also raises for a body that is not a list.
\<close>

theorem parse_answer_not_json:
  "parse_answer resp_not_json = Inl (TypeError text_not_callable) \<and>
   parse_answer \<lparr>status_code = 200, json = Inr (JStr ''cat'')\<rparr> =
     Inl (TypeError (text_not_list (JStr ''cat'')))"
  by (simp add: parse_answer_def resp_not_json_def)

subsection \<open>The fetch with fallback\<close>

text \<open>
  C3.  \<^verbatim>\<open>get_response\<close> always asks the primary endpoint first.  It asks the backup
  endpoint exactly when the primary attempt raised or answered with a status other than
  200, and then once; after a primary answer with status 200 the backup endpoint is not
  asked.
\<close>

theorem get_response_requests:
  "snd (get_response e tr) =
     tr @ RequestsGet DEFAULT_ENDPOINT #
       (case http_get e tr DEFAULT_ENDPOINT of
          Inl error \<Rightarrow> [RequestsGet BACKUP_ENDPOINT]
        | Inr r \<Rightarrow> if status_code r = 200 then [] else [RequestsGet BACKUP_ENDPOINT]) \<and>
   (RequestsGet BACKUP_ENDPOINT \<in> set (drop (length tr) (snd (get_response e tr)))) =
     ((\<exists>error. http_get e tr DEFAULT_ENDPOINT = Inl error) \<or>
      (\<exists>r. http_get e tr DEFAULT_ENDPOINT = Inr r \<and> status_code r \<noteq> 200)) \<and>
   count_list (drop (length tr) (snd (get_response e tr))) (RequestsGet BACKUP_ENDPOINT) \<le> 1"
  using endpoints_distinct
  by (auto simp add: get_response_def requests_get_def split: sum.splits)

theorem get_response_requests_witness:
  "snd (get_response (env_both resp_cat resp_cat) []) = [RequestsGet DEFAULT_ENDPOINT] \<and>
   snd (get_response (env_both resp_500 resp_cat) []) =
     [RequestsGet DEFAULT_ENDPOINT, RequestsGet BACKUP_ENDPOINT] \<and>
   snd (get_response (env_backup_down resp_500) []) =
     [RequestsGet DEFAULT_ENDPOINT, RequestsGet BACKUP_ENDPOINT]"
  using get_response_requests [of "env_both resp_cat resp_cat" "[]"]
    get_response_requests [of "env_both resp_500 resp_cat" "[]"]
    get_response_requests [of "env_backup_down resp_500" "[]"]
  by (simp add: env_both_def env_backup_down_def resp_cat_def resp_500_def)

text \<open>
  C4.  A primary answer with status 200 whose body \<^verbatim>\<open>parse_answer\<close> rejects:
  \<^verbatim>\<open>get_response\<close> has already returned that answer, after the one request to the primary
  endpoint; the handler (\<^verbatim>\<open>new_image\<close>, and \<^verbatim>\<open>wake_up\<close> after its greeting) sends the
  apology, and no request goes to the backup endpoint.
\<close>

theorem parse_failure_no_fallback:
  assumes "http_get e tr DEFAULT_ENDPOINT = Inr r" and "status_code r = 200"
    and "parse_answer r = Inl err"
  shows "get_response e tr = (Inr r, tr @ [RequestsGet DEFAULT_ENDPOINT]) \<and>
    new_image e upd tr =
      (Inr (), tr @ [RequestsGet DEFAULT_ENDPOINT,
                     BotSendMessage (chat_id upd) text_apology MARKUP]) \<and>
    RequestsGet BACKUP_ENDPOINT \<notin> set (drop (length tr) (snd (new_image e upd tr))) \<and>
    (\<forall>tr0. tr = tr0 @ [BotSendMessage (chat_id upd) (text_greeting (first_name upd)) MARKUP] \<longrightarrow>
       wake_up e upd tr0 =
         (Inr (), tr @ [RequestsGet DEFAULT_ENDPOINT,
                        BotSendMessage (chat_id upd) text_apology MARKUP]))"
proof -
  have g: "get_response e tr = (Inr r, tr @ [RequestsGet DEFAULT_ENDPOINT])"
    using assms(1,2) by (rule get_response_primary_ok)
  have n: "new_image e upd tr =
      (Inr (), tr @ [RequestsGet DEFAULT_ENDPOINT,
                     BotSendMessage (chat_id upd) text_apology MARKUP])"
    by (simp add: new_image_def g assms(3) send_message_eq)
  have b: "RequestsGet BACKUP_ENDPOINT \<notin> set (drop (length tr) (snd (new_image e upd tr)))"
    using endpoints_distinct by (simp add: n)
  have w: "wake_up e upd tr0 =
      (Inr (), tr @ [RequestsGet DEFAULT_ENDPOINT,
                     BotSendMessage (chat_id upd) text_apology MARKUP])"
    if "tr = tr0 @ [BotSendMessage (chat_id upd) (text_greeting (first_name upd)) MARKUP]" for tr0
    using n that by (simp add: wake_up_new_image)
  show ?thesis
    using g n b w by blast
qed

theorem parse_failure_no_fallback_witness:
  "new_image (env_both resp_not_json resp_cat) upd_button [] =
     (Inr (), [RequestsGet DEFAULT_ENDPOINT, BotSendMessage 7 text_apology MARKUP]) \<and>
   wake_up (env_both resp_not_json resp_cat) upd_start [] =
     (Inr (), [BotSendMessage 7 (text_greeting (Some ''Ann'')) MARKUP,
               RequestsGet DEFAULT_ENDPOINT, BotSendMessage 7 text_apology MARKUP])"
proof -
  have p: "parse_answer resp_not_json = Inl (TypeError text_not_callable)"
    by (simp add: parse_answer_def resp_not_json_def)
  have s: "status_code resp_not_json = 200"
    by (simp add: resp_not_json_def)
  have h1: "http_get (env_both resp_not_json resp_cat) [] DEFAULT_ENDPOINT = Inr resp_not_json"
    by (simp add: env_both_def)
  have h2: "http_get (env_both resp_not_json resp_cat)
      ([] @ [BotSendMessage (chat_id upd_start) (text_greeting (first_name upd_start)) MARKUP])
      DEFAULT_ENDPOINT = Inr resp_not_json"
    by (simp add: env_both_def)
  from parse_failure_no_fallback [OF h1 s p, of upd_button]
    parse_failure_no_fallback [OF h2 s p, of upd_start]
  show ?thesis
    by (simp add: upd_button_def upd_start_def)
qed

text \<open>
  C5.  When the primary attempt fails and the backup endpoint answers with a status other
  than 200, \<^verbatim>\<open>get_response\<close> raises \<^verbatim>\<open>APIAnswerStatusCodeError\<close>; its message names the
  backup endpoint and the status code of the backup answer.
\<close>

theorem get_response_backup_unavailable:
  assumes "case http_get e tr DEFAULT_ENDPOINT of Inl error \<Rightarrow> True | Inr r1 \<Rightarrow> status_code r1 \<noteq> 200"
    and "http_get e (tr @ [RequestsGet DEFAULT_ENDPOINT]) BACKUP_ENDPOINT = Inr r2"
    and "status_code r2 \<noteq> 200"
  shows "fst (get_response e tr) =
      Inl (APIAnswerStatusCodeError (text_unavailable BACKUP_ENDPOINT (status_code r2))) \<and>
    (\<exists>a b. text_unavailable BACKUP_ENDPOINT (status_code r2) =
       a @ BACKUP_ENDPOINT @ b @ str_int (status_code r2) @ ''.'')"
proof -
  have "fst (get_response e tr) =
      Inl (APIAnswerStatusCodeError (text_unavailable BACKUP_ENDPOINT (status_code r2)))"
    using assms(2,3) by (simp add: get_response_primary_failed [OF assms(1)])
  moreover have "\<exists>a b. text_unavailable BACKUP_ENDPOINT (status_code r2) =
       a @ BACKUP_ENDPOINT @ b @ str_int (status_code r2) @ ''.''"
    unfolding text_unavailable_def by (metis append.assoc)
  ultimately show ?thesis by simp
qed

theorem get_response_backup_unavailable_witness:
  "fst (get_response (env_both resp_500 resp_500) []) =
     Inl (APIAnswerStatusCodeError (text_unavailable BACKUP_ENDPOINT 500)) \<and>
   fst (get_response (env_both resp_500 resp_500) []) \<noteq>
     Inl (APIAnswerStatusCodeError (text_unavailable DEFAULT_ENDPOINT 500)) \<and>
   str_int 500 = ''500''"
proof -
  have h1: "case http_get (env_both resp_500 resp_500) [] DEFAULT_ENDPOINT of
      Inl error \<Rightarrow> True | Inr r1 \<Rightarrow> status_code r1 \<noteq> 200"
    by (simp add: env_both_def resp_500_def)
  have h2: "http_get (env_both resp_500 resp_500) ([] @ [RequestsGet DEFAULT_ENDPOINT])
      BACKUP_ENDPOINT = Inr resp_500"
    using endpoints_distinct by (simp add: env_both_def)
  have h3: "status_code resp_500 \<noteq> 200"
    by (simp add: resp_500_def)
  have d: "text_unavailable BACKUP_ENDPOINT 500 \<noteq> text_unavailable DEFAULT_ENDPOINT 500"
    by (simp add: text_unavailable_def DEFAULT_ENDPOINT_def BACKUP_ENDPOINT_def)
  have n: "str_int 500 = ''500''"
    by (simp add: str_int_def str_nat.simps digit_char_def)
  from get_response_backup_unavailable [OF h1 h2 h3] d n show ?thesis
    by (simp add: resp_500_def)
qed

text \<open>
  C6.  When the primary attempt fails and \<^verbatim>\<open>requests.get\<close> raises on the backup endpoint,
  \<^verbatim>\<open>get_response\<close> leaves with that exception after the two requests; the handler
  (\<^verbatim>\<open>new_image\<close>, and \<^verbatim>\<open>wake_up\<close> after its greeting) catches it, sends the apology once
  and returns normally.
\<close>

theorem backup_transport_error:
  assumes "case http_get e tr DEFAULT_ENDPOINT of Inl error \<Rightarrow> True | Inr r1 \<Rightarrow> status_code r1 \<noteq> 200"
    and "http_get e (tr @ [RequestsGet DEFAULT_ENDPOINT]) BACKUP_ENDPOINT = Inl err"
  shows "get_response e tr =
      (Inl err, tr @ [RequestsGet DEFAULT_ENDPOINT, RequestsGet BACKUP_ENDPOINT]) \<and>
    new_image e upd tr =
      (Inr (), tr @ [RequestsGet DEFAULT_ENDPOINT, RequestsGet BACKUP_ENDPOINT,
                     BotSendMessage (chat_id upd) text_apology MARKUP]) \<and>
    (\<forall>tr0. tr = tr0 @ [BotSendMessage (chat_id upd) (text_greeting (first_name upd)) MARKUP] \<longrightarrow>
       wake_up e upd tr0 =
         (Inr (), tr @ [RequestsGet DEFAULT_ENDPOINT, RequestsGet BACKUP_ENDPOINT,
                        BotSendMessage (chat_id upd) text_apology MARKUP]))"
proof -
  have g: "get_response e tr =
      (Inl err, tr @ [RequestsGet DEFAULT_ENDPOINT, RequestsGet BACKUP_ENDPOINT])"
    using assms(2) by (simp add: get_response_primary_failed [OF assms(1)])
  have n: "new_image e upd tr =
      (Inr (), tr @ [RequestsGet DEFAULT_ENDPOINT, RequestsGet BACKUP_ENDPOINT,
                     BotSendMessage (chat_id upd) text_apology MARKUP])"
    by (simp add: new_image_def g send_message_eq)
  have w: "wake_up e upd tr0 =
      (Inr (), tr @ [RequestsGet DEFAULT_ENDPOINT, RequestsGet BACKUP_ENDPOINT,
                     BotSendMessage (chat_id upd) text_apology MARKUP])"
    if "tr = tr0 @ [BotSendMessage (chat_id upd) (text_greeting (first_name upd)) MARKUP]" for tr0
    using n that by (simp add: wake_up_new_image)
  show ?thesis
    using g n w by blast
qed

theorem backup_transport_error_witness:
  "get_response (env_backup_down resp_500) [] =
     (Inl (RequestException ''connection refused''),
      [RequestsGet DEFAULT_ENDPOINT, RequestsGet BACKUP_ENDPOINT]) \<and>
   new_image (env_backup_down resp_500) upd_button [] =
     (Inr (), [RequestsGet DEFAULT_ENDPOINT, RequestsGet BACKUP_ENDPOINT,
               BotSendMessage 7 text_apology MARKUP]) \<and>
   wake_up (env_backup_down resp_500) upd_start [] =
     (Inr (), [BotSendMessage 7 (text_greeting (Some ''Ann'')) MARKUP,
               RequestsGet DEFAULT_ENDPOINT, RequestsGet BACKUP_ENDPOINT,
               BotSendMessage 7 text_apology MARKUP])"
proof -
  let ?e = "env_backup_down resp_500"
  have h1: "case http_get ?e tr DEFAULT_ENDPOINT of
      Inl error \<Rightarrow> True | Inr r1 \<Rightarrow> status_code r1 \<noteq> 200" for tr
    by (simp add: env_backup_down_def resp_500_def)
  have h2: "http_get ?e (tr @ [RequestsGet DEFAULT_ENDPOINT]) BACKUP_ENDPOINT =
      Inl (RequestException ''connection refused'')" for tr
    using endpoints_distinct by (simp add: env_backup_down_def)
  from backup_transport_error [OF h1 h2, of "[]" upd_button]
    backup_transport_error [OF h1 h2,
      of "[] @ [BotSendMessage (chat_id upd_start) (text_greeting (first_name upd_start)) MARKUP]"
         upd_start]
  show ?thesis
    by (simp add: upd_button_def upd_start_def)
qed

subsection \<open>The handlers\<close>

text \<open>
  C7, as the code has it.  On a start command whose fetch returns an answer with an
  object first and \<open>url\<close> in it, the gateway is called with the greeting for the
  sender's first name and then with the photo for the chat and the value of \<open>url\<close>.
  These two are all its calls when \<^verbatim>\<open>send_photo\<close> returns normally.
\<close>

theorem wake_up_greeting_then_photo:
  assumes "fst (get_response e
      (tr @ [BotSendMessage (chat_id upd) (text_greeting (first_name upd)) MARKUP])) = Inr r"
    and "json r = Inr (JList (JDict d # rest))" and "d ''url'' = Some v"
    and "tg_send_photo e (snd (get_response e
      (tr @ [BotSendMessage (chat_id upd) (text_greeting (first_name upd)) MARKUP])))
      (chat_id upd) v = None"
  shows "fst (wake_up e upd tr) = Inr () \<and>
    outbound (snd (wake_up e upd tr)) =
      outbound tr @ [BotSendMessage (chat_id upd) (text_greeting (first_name upd)) MARKUP,
                     BotSendPhoto (chat_id upd) v]"
proof -
  let ?tr1 = "tr @ [BotSendMessage (chat_id upd) (text_greeting (first_name upd)) MARKUP]"
  obtain tr2 where g: "get_response e ?tr1 = (Inr r, tr2)"
    using assms(1) by (cases "get_response e ?tr1") simp
  have o: "outbound tr2 = outbound ?tr1"
    using get_response_outbound [of e ?tr1] by (simp add: g)
  have p: "parse_answer r = Inr v"
    using assms(2,3) by (simp add: parse_answer_def)
  have s: "tg_send_photo e tr2 (chat_id upd) v = None"
    using assms(4) by (simp add: g)
  have "wake_up e upd tr = (Inr (), tr2 @ [BotSendPhoto (chat_id upd) v])"
    by (simp add: wake_up_new_image new_image_def g p bot_send_photo_def s)
  then show ?thesis
    by (simp add: outbound_append o)
qed

theorem wake_up_greeting_then_photo_witness:
  "wake_up (env_both resp_cat resp_cat) upd_start [] =
     (Inr (), [BotSendMessage 7 (text_greeting (Some ''Ann'')) MARKUP,
               RequestsGet DEFAULT_ENDPOINT,
               BotSendPhoto 7 (JStr ''http://x/cat.png'')]) \<and>
   outbound (snd (wake_up (env_both resp_cat resp_cat) upd_start [])) =
     [BotSendMessage 7 (text_greeting (Some ''Ann'')) MARKUP,
      BotSendPhoto 7 (JStr ''http://x/cat.png'')]"
proof -
  let ?e = "env_both resp_cat resp_cat"
  let ?g = "BotSendMessage (chat_id upd_start) (text_greeting (first_name upd_start)) MARKUP"
  have g: "get_response ?e [?g] = (Inr resp_cat, [?g, RequestsGet DEFAULT_ENDPOINT])"
    by (simp add: get_response_def requests_get_def env_both_def resp_cat_def)
  have h1: "fst (get_response ?e ([] @ [?g])) = Inr resp_cat"
    by (simp add: g)
  have h2: "json resp_cat =
      Inr (JList (JDict [''id'' \<mapsto> JStr ''abc'', ''url'' \<mapsto> JStr ''http://x/cat.png''] # [JInt 5]))"
    by (simp add: resp_cat_def)
  have h3: "[''id'' \<mapsto> JStr ''abc'', ''url'' \<mapsto> JStr ''http://x/cat.png''] ''url'' =
      Some (JStr ''http://x/cat.png'')"
    by simp
  have h4: "tg_send_photo ?e (snd (get_response ?e ([] @ [?g]))) (chat_id upd_start)
      (JStr ''http://x/cat.png'') = None"
    by (simp add: env_both_def)
  have w: "wake_up ?e upd_start [] =
     (Inr (), [BotSendMessage 7 (text_greeting (Some ''Ann'')) MARKUP,
               RequestsGet DEFAULT_ENDPOINT,
               BotSendPhoto 7 (JStr ''http://x/cat.png'')])"
    using g by (simp add: wake_up_new_image new_image_def parse_answer_def resp_cat_def
        bot_send_photo_def env_both_def upd_start_def)
  from wake_up_greeting_then_photo [OF h1 h2 h3 h4] w show ?thesis
    by (simp add: upd_start_def)
qed

text \<open>
  C7 as the claim is worded fails when the gateway refuses the photo: the fetch succeeds,
  the payload has \<open>url\<close>, and the gateway is called three times, the third call
  being the apology.
\<close>

theorem wake_up_two_calls_counterexample:
  "fst (get_response (env_photo_refused resp_cat)
      [BotSendMessage 7 (text_greeting (Some ''Ann'')) MARKUP]) = Inr resp_cat \<and>
   parse_answer resp_cat = Inr (JStr ''http://x/cat.png'') \<and>
   outbound (snd (wake_up (env_photo_refused resp_cat) upd_start [])) =
     [BotSendMessage 7 (text_greeting (Some ''Ann'')) MARKUP,
      BotSendPhoto 7 (JStr ''http://x/cat.png''),
      BotSendMessage 7 text_apology MARKUP] \<and>
   outbound (snd (wake_up (env_photo_refused resp_cat) upd_start [])) \<noteq>
     [BotSendMessage 7 (text_greeting (Some ''Ann'')) MARKUP,
      BotSendPhoto 7 (JStr ''http://x/cat.png'')]"
  by (simp add: wake_up_new_image new_image_def get_response_def requests_get_def
      parse_answer_def resp_cat_def bot_send_photo_def env_photo_refused_def upd_start_def
      send_message_eq)

text \<open>
  C8.  On the button text, when both endpoints answer with a status other than 200,
  \<^verbatim>\<open>new_image\<close> returns normally after the two requests and one call of the gateway, the
  apology text; no photo is sent.
\<close>

theorem new_image_both_unavailable:
  assumes "http_get e tr DEFAULT_ENDPOINT = Inr r1" and "status_code r1 \<noteq> 200"
    and "http_get e (tr @ [RequestsGet DEFAULT_ENDPOINT]) BACKUP_ENDPOINT = Inr r2"
    and "status_code r2 \<noteq> 200"
  shows "new_image e upd tr =
      (Inr (), tr @ [RequestsGet DEFAULT_ENDPOINT, RequestsGet BACKUP_ENDPOINT,
                     BotSendMessage (chat_id upd) text_apology MARKUP]) \<and>
    outbound (snd (new_image e upd tr)) =
      outbound tr @ [BotSendMessage (chat_id upd) text_apology MARKUP]"
proof -
  have f: "case http_get e tr DEFAULT_ENDPOINT of
      Inl error \<Rightarrow> True | Inr r \<Rightarrow> status_code r \<noteq> 200"
    using assms(1,2) by simp
  have g: "get_response e tr =
      (Inl (APIAnswerStatusCodeError (text_unavailable BACKUP_ENDPOINT (status_code r2))),
       tr @ [RequestsGet DEFAULT_ENDPOINT, RequestsGet BACKUP_ENDPOINT])"
    using assms(3,4) by (simp add: get_response_primary_failed [OF f])
  show ?thesis
    by (simp add: new_image_def g send_message_eq outbound_append)
qed

theorem new_image_both_unavailable_witness:
  "new_image (env_both resp_500 resp_500) upd_button [] =
     (Inr (), [RequestsGet DEFAULT_ENDPOINT, RequestsGet BACKUP_ENDPOINT,
               BotSendMessage 7 text_apology MARKUP]) \<and>
   outbound (snd (new_image (env_both resp_500 resp_500) upd_button [])) =
     [BotSendMessage 7 text_apology MARKUP]"
proof -
  let ?e = "env_both resp_500 resp_500"
  have h1: "http_get ?e [] DEFAULT_ENDPOINT = Inr resp_500"
    by (simp add: env_both_def)
  have h2: "status_code resp_500 \<noteq> 200"
    by (simp add: resp_500_def)
  have h3: "http_get ?e ([] @ [RequestsGet DEFAULT_ENDPOINT]) BACKUP_ENDPOINT = Inr resp_500"
    by (simp add: env_both_def)
  from new_image_both_unavailable [OF h1 h2 h3 h2, of upd_button] show ?thesis
    by (simp add: upd_button_def)
qed

text \<open>
  C9.  A text that is neither the start command nor the button label, yet occurs inside
  the label: here its last character.  \<^verbatim>\<open>Filters.text(BUTTON)\<close> accepts it, so the
  update goes to \<^verbatim>\<open>new_image\<close>, which asks the primary endpoint and sends the photo;
  the text of \<^verbatim>\<open>reply_to_message\<close> is not sent.
\<close>

theorem dispatch_part_of_button:
  "command upd_bang = None \<and> message_text upd_bang \<noteq> BUTTON \<and>
   dispatch (env_both resp_cat resp_cat) upd_bang [] =
     (Inr (), [RequestsGet DEFAULT_ENDPOINT, BotSendPhoto 7 (JStr ''http://x/cat.png'')]) \<and>
   dispatch (env_both resp_cat resp_cat) upd_bang [] \<noteq>
     (Inr (), [BotSendMessage 7 text_cannot_chat MARKUP])"
proof -
  have b: "filters_text_in BUTTON upd_bang"
    by (simp add: filters_text_in_def upd_bang_def BUTTON_def sublist_code)
  have c: "\<not> command_start upd_bang"
    by (simp add: command_start_def upd_bang_def)
  have n: "new_image (env_both resp_cat resp_cat) upd_bang [] =
     (Inr (), [RequestsGet DEFAULT_ENDPOINT, BotSendPhoto 7 (JStr ''http://x/cat.png'')])"
    by (simp add: new_image_def get_response_def requests_get_def parse_answer_def
        resp_cat_def bot_send_photo_def env_both_def upd_bang_def)
  have t: "message_text upd_bang \<noteq> BUTTON"
    by (simp add: upd_bang_def BUTTON_def)
  show ?thesis
    using t by (simp add: dispatch_def b c n) (simp add: upd_bang_def)
qed

text \<open>
  For the other texts the third handler runs: a text that is not the start command and
  does not occur inside the button label goes to \<^verbatim>\<open>reply_to_message\<close>, which calls the
  gateway once, with the fixed text, and makes no request.
\<close>

lemma dispatch_other_text:
  assumes "command upd \<noteq> Some ''start''" and "message_text upd \<noteq> []"
    and "\<not> sublist (message_text upd) BUTTON"
  shows "dispatch e upd tr = (Inr (), tr @ [BotSendMessage (chat_id upd) text_cannot_chat MARKUP])"
  using assms
  by (simp add: dispatch_def command_start_def filters_text_in_def filters_text_def
      reply_to_message_def send_message_eq)

lemma dispatch_hello:
  "dispatch e upd_hello [] = (Inr (), [BotSendMessage 7 text_cannot_chat MARKUP])"
proof -
  have "\<not> sublist (message_text upd_hello) BUTTON"
    by (simp add: upd_hello_def BUTTON_def sublist_code)
  then show ?thesis
    using dispatch_other_text [of upd_hello e "[]"] by (simp add: upd_hello_def)
qed

text \<open>
  C10, as the code has it.  On a start command the greeting is sent before the fetch.
  When \<^verbatim>\<open>get_response\<close> or \<^verbatim>\<open>parse_answer\<close> raises, the gateway is called twice, with the
  greeting and then with the apology, and with no photo.  When \<^verbatim>\<open>send_photo\<close> itself
  raises, that call stands between the two texts.  The handler returns normally.
\<close>

theorem wake_up_flow_fails:
  "((fst (get_response e
        (tr @ [BotSendMessage (chat_id upd) (text_greeting (first_name upd)) MARKUP])) = Inl err \<or>
     (fst (get_response e
        (tr @ [BotSendMessage (chat_id upd) (text_greeting (first_name upd)) MARKUP])) = Inr r \<and>
      parse_answer r = Inl err)) \<longrightarrow>
    fst (wake_up e upd tr) = Inr () \<and>
    outbound (snd (wake_up e upd tr)) =
      outbound tr @ [BotSendMessage (chat_id upd) (text_greeting (first_name upd)) MARKUP,
                     BotSendMessage (chat_id upd) text_apology MARKUP]) \<and>
   ((fst (get_response e
        (tr @ [BotSendMessage (chat_id upd) (text_greeting (first_name upd)) MARKUP])) = Inr r \<and>
     parse_answer r = Inr v \<and>
     tg_send_photo e (snd (get_response e
        (tr @ [BotSendMessage (chat_id upd) (text_greeting (first_name upd)) MARKUP])))
        (chat_id upd) v = Some err) \<longrightarrow>
    fst (wake_up e upd tr) = Inr () \<and>
    outbound (snd (wake_up e upd tr)) =
      outbound tr @ [BotSendMessage (chat_id upd) (text_greeting (first_name upd)) MARKUP,
                     BotSendPhoto (chat_id upd) v,
                     BotSendMessage (chat_id upd) text_apology MARKUP])"
proof -
  let ?tr1 = "tr @ [BotSendMessage (chat_id upd) (text_greeting (first_name upd)) MARKUP]"
  obtain x tr2 where g: "get_response e ?tr1 = (x, tr2)"
    by (cases "get_response e ?tr1")
  have o: "outbound tr2 = outbound ?tr1"
    using get_response_outbound [of e ?tr1] by (simp add: g)
  show ?thesis
    by (auto simp add: wake_up_new_image new_image_def g o send_message_eq bot_send_photo_def
        outbound_append Let_def)
qed

theorem wake_up_flow_fails_witness:
  "outbound (snd (wake_up (env_both resp_500 resp_500) upd_start [])) =
     [BotSendMessage 7 (text_greeting (Some ''Ann'')) MARKUP,
      BotSendMessage 7 text_apology MARKUP] \<and>
   outbound (snd (wake_up (env_both resp_not_json resp_cat) upd_start [])) =
     [BotSendMessage 7 (text_greeting (Some ''Ann'')) MARKUP,
      BotSendMessage 7 text_apology MARKUP] \<and>
   outbound (snd (wake_up (env_photo_refused resp_cat) upd_start [])) =
     [BotSendMessage 7 (text_greeting (Some ''Ann'')) MARKUP,
      BotSendPhoto 7 (JStr ''http://x/cat.png''),
      BotSendMessage 7 text_apology MARKUP]"
proof -
  let ?g = "BotSendMessage (chat_id upd_start) (text_greeting (first_name upd_start)) MARKUP"
  have a: "fst (get_response (env_both resp_500 resp_500) ([] @ [?g])) =
      Inl (APIAnswerStatusCodeError (text_unavailable BACKUP_ENDPOINT 500))"
    using endpoints_distinct
    by (simp add: get_response_def requests_get_def env_both_def resp_500_def)
  have b: "fst (get_response (env_both resp_not_json resp_cat) ([] @ [?g])) = Inr resp_not_json \<and>
      parse_answer resp_not_json = Inl (TypeError text_not_callable)"
    by (simp add: get_response_def requests_get_def env_both_def resp_not_json_def
        parse_answer_def)
  have c: "fst (get_response (env_photo_refused resp_cat) ([] @ [?g])) = Inr resp_cat \<and>
      parse_answer resp_cat = Inr (JStr ''http://x/cat.png'') \<and>
      tg_send_photo (env_photo_refused resp_cat)
        (snd (get_response (env_photo_refused resp_cat) ([] @ [?g])))
        (chat_id upd_start) (JStr ''http://x/cat.png'') = Some (TelegramError ''Bad Request'')"
    by (simp add: get_response_def requests_get_def env_photo_refused_def resp_cat_def
        parse_answer_def)
  from a b c
    wake_up_flow_fails [of "env_both resp_500 resp_500" "[]" upd_start
      "APIAnswerStatusCodeError (text_unavailable BACKUP_ENDPOINT 500)"]
    wake_up_flow_fails [of "env_both resp_not_json resp_cat" "[]" upd_start
      "TypeError text_not_callable" resp_not_json]
    wake_up_flow_fails [of "env_photo_refused resp_cat" "[]" upd_start
      "TelegramError ''Bad Request''" resp_cat "JStr ''http://x/cat.png''"]
  show ?thesis
    by (simp add: upd_start_def)
qed

text \<open>
  C10 as the claim is worded fails when the flow fails in \<^verbatim>\<open>send_photo\<close>: the gateway has
  then received a photo call, the one that raised.
\<close>

theorem wake_up_no_photo_counterexample:
  "tg_send_photo (env_photo_refused resp_cat)
     [BotSendMessage 7 (text_greeting (Some ''Ann'')) MARKUP, RequestsGet DEFAULT_ENDPOINT]
     7 (JStr ''http://x/cat.png'') = Some (TelegramError ''Bad Request'') \<and>
   wake_up (env_photo_refused resp_cat) upd_start [] =
     (Inr (), [BotSendMessage 7 (text_greeting (Some ''Ann'')) MARKUP,
               RequestsGet DEFAULT_ENDPOINT,
               BotSendPhoto 7 (JStr ''http://x/cat.png''),
               BotSendMessage 7 text_apology MARKUP]) \<and>
   BotSendPhoto 7 (JStr ''http://x/cat.png'') \<in>
     set (snd (wake_up (env_photo_refused resp_cat) upd_start []))"
  by (simp add: wake_up_new_image new_image_def get_response_def requests_get_def
      parse_answer_def resp_cat_def bot_send_photo_def env_photo_refused_def upd_start_def
      send_message_eq)


end
